theory Spec2Isabelle
  imports Main
begin

section \<open>Data model\<close>

text \<open>
  The session lifecycle manager of the bookstore back end: the class \<open>AuthService\<close>
  with its methods \<open>signup\<close>, \<open>login\<close>, \<open>logout\<close>, \<open>refreshTokens\<close>,
  \<open>googleAuthCallback\<close>, \<open>updateRtHash\<close>, \<open>getTokens\<close>, \<open>saveTokensInCookies\<close>
  and \<open>removeTokensInCookies\<close>. Every method is modelled as a function that takes the
  state it can touch and returns the outcome together with the state it leaves behind;
  a thrown exception is the left summand of the outcome.
\<close>

text \<open>Modelled from the spec: the \<open>Role\<close> enumeration is declared in the Prisma schema,
  which is not part of the sources; the spec names a standard and an administrator role.\<close>

datatype role = Standard | Admin

text \<open>A row of the \<open>User\<close> table, with the eight columns the service reads, writes or
  strips. \<open>u_refreshToken\<close> is nullable: \<open>None\<close> is SQL \<open>null\<close>.\<close>

record user =
  u_id :: int
  u_email :: string
  u_password :: string
  u_name :: string
  u_role :: role
  u_refreshToken :: "string option"
  u_createdAt :: nat
  u_updatedAt :: nat

record database =
  rows :: "user list"
  id_seq :: int

text \<open>What a request reads from its surroundings: the clock (seconds) and the salt
  that the password hasher draws for this request.\<close>

record env =
  now :: nat
  salt :: string

record SignupDto =
  signup_email :: string
  signup_password :: string
  signup_name :: string

record LoginDto =
  login_email :: string
  login_password :: string

record JwtPayload =
  sub :: int
  role :: role
  email :: string

record sign_options =
  secret :: "string option"
  expiresIn :: string

record Tokens =
  access_token :: string
  refresh_token :: string

text \<open>The identity that the federated handshake leaves in \<open>req.user\<close>.\<close>

record AuthRequest_user =
  req_id :: int
  req_email :: string
  req_role :: role

subsection \<open>Plain objects\<close>

text \<open>The service returns plain objects obtained from a row by rest-destructuring, so a
  returned user is a list of named fields and not a typed row.\<close>

datatype jsval = JNum int | JStr string | JNull | JRole role | JDate nat

type_synonym jsobj = "(string \<times> jsval) list"

definition user_obj :: "user \<Rightarrow> jsobj" where
  "user_obj u =
     [(''id'', JNum (u_id u)),
      (''email'', JStr (u_email u)),
      (''password'', JStr (u_password u)),
      (''name'', JStr (u_name u)),
      (''role'', JRole (u_role u)),
      (''refreshToken'', (case u_refreshToken u of None \<Rightarrow> JNull | Some h \<Rightarrow> JStr h)),
      (''createdAt'', JDate (u_createdAt u)),
      (''updatedAt'', JDate (u_updatedAt u))]"

text \<open>\<open>const { k1, ..., kn, ...rest } = obj\<close>: the fields of \<open>obj\<close> other than the named ones.\<close>

definition rest_without :: "string list \<Rightarrow> jsobj \<Rightarrow> jsobj" where
  "rest_without ks obj = filter (\<lambda>kv. fst kv \<notin> set ks) obj"

text \<open>Prisma's \<open>select\<close>: only the listed fields are returned.\<close>

definition select_fields :: "string list \<Rightarrow> jsobj \<Rightarrow> jsobj" where
  "select_fields ks obj = filter (\<lambda>kv. fst kv \<in> set ks) obj"

definition has_field :: "jsobj \<Rightarrow> string \<Rightarrow> bool" where
  "has_field obj k = (k \<in> set (map fst obj))"

subsection \<open>Errors\<close>

datatype prisma_error =
  PrismaClientKnownRequestError string
  | PrismaOtherError string

datatype error =
  ConflictException "string list"
  | BadRequestException string
  | UnauthorizedException string
  | ForbiddenException string
  | PrismaError prisma_error
  | JwtError string

text \<open>The HTTP status the framework answers with for each exception: the status of the
  four HTTP exceptions the service throws, and 500 for an error that is none of them.\<close>

fun getStatus :: "error \<Rightarrow> nat" where
  "getStatus (ConflictException _) = 409"
| "getStatus (BadRequestException _) = 400"
| "getStatus (UnauthorizedException _) = 401"
| "getStatus (ForbiddenException _) = 403"
| "getStatus (PrismaError _) = 500"
| "getStatus (JwtError _) = 500"

subsection \<open>The response and the world\<close>

record cookie =
  cookie_name :: string
  cookie_value :: string
  maxAge :: "int option"

record response =
  cookies :: "cookie list"
  redirect :: "string option option"

definition res_cookie :: "response \<Rightarrow> string \<Rightarrow> string \<Rightarrow> int option \<Rightarrow> response" where
  "res_cookie res n v age =
     res\<lparr>cookies := cookies res @ [\<lparr>cookie_name = n, cookie_value = v, maxAge = age\<rparr>]\<rparr>"

definition res_redirect :: "response \<Rightarrow> string option \<Rightarrow> response" where
  "res_redirect res url = res\<lparr>redirect := Some url\<rparr>"

text \<open>The state outside a request: the table, and the log of the signing calls made on
  the token signer.\<close>

record world =
  db :: database
  jwt_calls :: "(JwtPayload \<times> sign_options) list"

section \<open>Collaborators\<close>

text \<open>The five queries the service sends to \<open>prisma.user\<close>, each with the \<open>where\<close> and
  \<open>data\<close> shape of its one call site. A query can fail, and a write returns the table it
  leaves.\<close>

record prisma_user =
  user_create :: "env \<Rightarrow> string \<times> string \<times> string \<Rightarrow> database \<Rightarrow> (prisma_error + user) \<times> database"
  user_findFirstOrThrow :: "string \<Rightarrow> database \<Rightarrow> prisma_error + user"
  user_updateMany :: "env \<Rightarrow> int \<Rightarrow> database \<Rightarrow> (prisma_error + nat) \<times> database"
  user_findUnique :: "int \<Rightarrow> database \<Rightarrow> prisma_error + user option"
  user_update :: "env \<Rightarrow> int \<Rightarrow> string \<Rightarrow> database \<Rightarrow> (prisma_error + user) \<times> database"

text \<open>What the service is constructed with (\<open>prisma\<close>, \<open>config\<close>, \<open>jwt\<close>) and the two
  functions it imports from the password hasher. The signer reads the clock; the hasher
  draws a salt.\<close>

record deps =
  prisma :: prisma_user
  config_get :: "string \<Rightarrow> string option"
  signAsync :: "nat \<Rightarrow> JwtPayload \<Rightarrow> sign_options \<Rightarrow> string + string"
  hash :: "string \<Rightarrow> string \<Rightarrow> string"
  verify :: "string \<Rightarrow> string \<Rightarrow> bool"

subsection \<open>The store as a table in memory\<close>

text \<open>Modelled from the spec: the Prisma schema and \<open>PrismaService\<close> are not part of the
  sources. The table has a unique email, an identity that comes from a sequence, a
  nullable refresh-token fingerprint and creation and update timestamps; \<open>create\<close> fails
  with the uniqueness violation \<open>P2002\<close> on a duplicate email, the \<open>OrThrow\<close> lookup and
  \<open>update\<close> fail with \<open>P2025\<close> when no row matches, and \<open>updateMany\<close> reports the number
  of rows it matched.\<close>

definition mem_create ::
  "env \<Rightarrow> string \<times> string \<times> string \<Rightarrow> database \<Rightarrow> (prisma_error + user) \<times> database" where
  "mem_create e d t =
     (case d of (em, pw, nm) \<Rightarrow>
        if list_ex (\<lambda>u. u_email u = em) (rows t)
        then (Inl (PrismaClientKnownRequestError ''P2002''), t)
        else
          (let u = \<lparr>u_id = id_seq t, u_email = em, u_password = pw, u_name = nm,
                    u_role = Standard, u_refreshToken = None,
                    u_createdAt = now e, u_updatedAt = now e\<rparr>
           in (Inr u, \<lparr>rows = rows t @ [u], id_seq = id_seq t + 1\<rparr>)))"

definition mem_findFirstOrThrow :: "string \<Rightarrow> database \<Rightarrow> prisma_error + user" where
  "mem_findFirstOrThrow em t =
     (case find (\<lambda>u. u_email u = em) (rows t) of
        None \<Rightarrow> Inl (PrismaClientKnownRequestError ''P2025'')
      | Some u \<Rightarrow> Inr u)"

definition clear_rt :: "env \<Rightarrow> int \<Rightarrow> user \<Rightarrow> user" where
  "clear_rt e i u =
     (if u_id u = i \<and> u_refreshToken u \<noteq> None
      then u\<lparr>u_refreshToken := None, u_updatedAt := now e\<rparr> else u)"

definition mem_updateMany :: "env \<Rightarrow> int \<Rightarrow> database \<Rightarrow> (prisma_error + nat) \<times> database" where
  "mem_updateMany e i t =
     (Inr (length (filter (\<lambda>u. u_id u = i \<and> u_refreshToken u \<noteq> None) (rows t))),
      t\<lparr>rows := map (clear_rt e i) (rows t)\<rparr>)"

definition mem_findUnique :: "int \<Rightarrow> database \<Rightarrow> prisma_error + user option" where
  "mem_findUnique i t = Inr (find (\<lambda>u. u_id u = i) (rows t))"

definition set_rt :: "env \<Rightarrow> int \<Rightarrow> string \<Rightarrow> user \<Rightarrow> user" where
  "set_rt e i h u =
     (if u_id u = i then u\<lparr>u_refreshToken := Some h, u_updatedAt := now e\<rparr> else u)"

definition mem_update ::
  "env \<Rightarrow> int \<Rightarrow> string \<Rightarrow> database \<Rightarrow> (prisma_error + user) \<times> database" where
  "mem_update e i h t =
     (case find (\<lambda>u. u_id u = i) (rows t) of
        None \<Rightarrow> (Inl (PrismaClientKnownRequestError ''P2025''), t)
      | Some u \<Rightarrow> (Inr (set_rt e i h u), t\<lparr>rows := map (set_rt e i h) (rows t)\<rparr>))"

definition mem_prisma :: prisma_user where
  "mem_prisma =
     \<lparr>user_create = mem_create,
      user_findFirstOrThrow = mem_findFirstOrThrow,
      user_updateMany = mem_updateMany,
      user_findUnique = mem_findUnique,
      user_update = mem_update\<rparr>"

text \<open>The stored fingerprint of a user, as \<open>findUnique\<close> would read it.\<close>

definition stored_rt :: "database \<Rightarrow> int \<Rightarrow> string option" where
  "stored_rt t i =
     (case find (\<lambda>u. u_id u = i) (rows t) of None \<Rightarrow> None | Some u \<Rightarrow> u_refreshToken u)"

definition user_absent :: "database \<Rightarrow> int \<Rightarrow> bool" where
  "user_absent t i = (find (\<lambda>u. u_id u = i) (rows t) = None)"

section \<open>The service\<close>

subsection \<open>Cookies\<close>

definition saveTokensInCookies :: "response \<Rightarrow> Tokens \<Rightarrow> response" where
  "saveTokensInCookies res tokens =
     res_cookie
       (res_cookie res ''ACCESS_TOKEN'' (access_token tokens) (Some 900000))
       ''REFRESH_TOKEN'' (refresh_token tokens) (Some 604800000)"

definition removeTokensInCookies :: "response \<Rightarrow> response" where
  "removeTokensInCookies res =
     res_cookie (res_cookie res ''ACCESS_TOKEN'' [] (Some 0)) ''REFRESH_TOKEN'' [] (Some 0)"

subsection \<open>Token issuance\<close>

definition access_options :: "deps \<Rightarrow> sign_options" where
  "access_options D = \<lparr>secret = config_get D ''JWT_ACCESS_SECRET'', expiresIn = ''15m''\<rparr>"

definition refresh_options :: "deps \<Rightarrow> sign_options" where
  "refresh_options D = \<lparr>secret = config_get D ''JWT_REFRESH_SECRET'', expiresIn = ''7d''\<rparr>"

text \<open>\<open>Promise.all\<close> starts both signing calls and rejects as soon as one of them
  rejects; when both reject, the model reports the rejection of the first in the array.\<close>

definition getTokens ::
  "deps \<Rightarrow> env \<Rightarrow> int \<Rightarrow> string \<Rightarrow> role \<Rightarrow> world \<Rightarrow> (error + Tokens) \<times> world" where
  "getTokens D e userId em r w =
     (let jwtPayload = \<lparr>sub = userId, role = r, email = em\<rparr>;
          w' = w\<lparr>jwt_calls := jwt_calls w @
                 [(jwtPayload, access_options D), (jwtPayload, refresh_options D)]\<rparr>
      in case signAsync D (now e) jwtPayload (access_options D) of
           Inl m \<Rightarrow> (Inl (JwtError m), w')
         | Inr accessToken \<Rightarrow>
             (case signAsync D (now e) jwtPayload (refresh_options D) of
                Inl m \<Rightarrow> (Inl (JwtError m), w')
              | Inr refreshToken \<Rightarrow>
                  (Inr \<lparr>access_token = accessToken, refresh_token = refreshToken\<rparr>, w')))"

definition updateRtHash ::
  "deps \<Rightarrow> env \<Rightarrow> int \<Rightarrow> string \<Rightarrow> world \<Rightarrow> (error + unit) \<times> world" where
  "updateRtHash D e userId rt w =
     (let hashedRefreshToken = hash D (salt e) rt
      in case user_update (prisma D) e userId hashedRefreshToken (db w) of
           (Inl x, t) \<Rightarrow> (Inl (PrismaError x), w\<lparr>db := t\<rparr>)
         | (Inr _, t) \<Rightarrow> (Inr (), w\<lparr>db := t\<rparr>))"

subsection \<open>Signup\<close>

text \<open>The \<open>catch\<close> clause of \<open>signup\<close>: a known request error with code \<open>P2002\<close>
  becomes a conflict, every other exception is thrown again.\<close>

definition signup_catch :: "error \<Rightarrow> error" where
  "signup_catch x =
     (case x of
        PrismaError (PrismaClientKnownRequestError code) \<Rightarrow>
          if code = ''P2002'' then ConflictException [''Email is already in use''] else x
      | _ \<Rightarrow> x)"

definition signup :: "deps \<Rightarrow> env \<Rightarrow> SignupDto \<Rightarrow> world \<Rightarrow> (error + jsobj) \<times> world" where
  "signup D e dto w =
     (let hashedPassword = hash D (salt e) (signup_password dto)
      in case user_create (prisma D) e (signup_email dto, hashedPassword, signup_name dto) (db w) of
           (Inl x, t) \<Rightarrow> (Inl (signup_catch (PrismaError x)), w\<lparr>db := t\<rparr>)
         | (Inr u, t) \<Rightarrow>
             (Inr (rest_without [''password'', ''refreshToken'', ''createdAt'', ''updatedAt'']
                     (user_obj u)),
              w\<lparr>db := t\<rparr>))"

subsection \<open>Login\<close>

definition ERROR :: string where
  "ERROR = ''Email or password incorrect.''"

text \<open>The \<open>catch\<close> clause of \<open>login\<close>: a known request error with code \<open>P2025\<close>
  becomes \<open>UnauthorizedException\<close>, every other exception is thrown again.\<close>

definition login_catch :: "error \<Rightarrow> error" where
  "login_catch x =
     (case x of
        PrismaError (PrismaClientKnownRequestError code) \<Rightarrow>
          if code = ''P2025'' then UnauthorizedException ERROR else x
      | _ \<Rightarrow> x)"

definition login ::
  "deps \<Rightarrow> env \<Rightarrow> LoginDto \<Rightarrow> response \<Rightarrow> world \<Rightarrow> (error + jsobj \<times> Tokens) \<times> response \<times> world" where
  "login D e dto res w =
     (case user_findFirstOrThrow (prisma D) (login_email dto) (db w) of
        Inl x \<Rightarrow> (Inl (login_catch (PrismaError x)), res, w)
      | Inr u \<Rightarrow>
          (let passwordMatch = verify D (u_password u) (login_password dto)
           in if \<not> passwordMatch then (Inl (login_catch (BadRequestException ERROR)), res, w)
              else
                (case getTokens D e (u_id u) (u_email u) (u_role u) w of
                   (Inl x, w1) \<Rightarrow> (Inl (login_catch x), res, w1)
                 | (Inr tokens, w1) \<Rightarrow>
                     (case updateRtHash D e (u_id u) (refresh_token tokens) w1 of
                        (Inl x, w2) \<Rightarrow> (Inl (login_catch x), res, w2)
                      | (Inr _, w2) \<Rightarrow>
                          (Inr (rest_without
                                  [''password'', ''refreshToken'', ''createdAt'', ''updatedAt'']
                                  (user_obj u),
                                tokens),
                           saveTokensInCookies res tokens, w2)))))"

subsection \<open>Logout\<close>

definition logout ::
  "deps \<Rightarrow> env \<Rightarrow> int \<Rightarrow> response \<Rightarrow> world \<Rightarrow> (error + bool) \<times> response \<times> world" where
  "logout D e userId res w =
     (case user_updateMany (prisma D) e userId (db w) of
        (Inl x, t) \<Rightarrow> (Inl (PrismaError x), res, w\<lparr>db := t\<rparr>)
      | (Inr _, t) \<Rightarrow> (Inr True, removeTokensInCookies res, w\<lparr>db := t\<rparr>))"

subsection \<open>Refresh\<close>

text \<open>\<open>!user || !user.refreshToken\<close>: the second test holds for \<open>null\<close> and for the
  empty string.\<close>

definition refreshTokens ::
  "deps \<Rightarrow> env \<Rightarrow> response \<Rightarrow> int \<Rightarrow> string \<Rightarrow> world \<Rightarrow>
     (error + jsobj \<times> Tokens) \<times> response \<times> world" where
  "refreshTokens D e res userId rt w =
     (case user_findUnique (prisma D) userId (db w) of
        Inl x \<Rightarrow> (Inl (PrismaError x), res, w)
      | Inr None \<Rightarrow> (Inl (ForbiddenException ''Access Denied.''), res, w)
      | Inr (Some u) \<Rightarrow>
          (case u_refreshToken u of
             None \<Rightarrow> (Inl (ForbiddenException ''Access Denied.''), res, w)
           | Some h \<Rightarrow>
               if h = [] then (Inl (ForbiddenException ''Access Denied.''), res, w)
               else
                 (let rtMatches = verify D h rt
                  in if \<not> rtMatches then (Inl (ForbiddenException ''Access Denied.''), res, w)
                     else
                       (case getTokens D e (u_id u) (u_email u) (u_role u) w of
                          (Inl x, w1) \<Rightarrow> (Inl x, res, w1)
                        | (Inr tokens, w1) \<Rightarrow>
                            (case updateRtHash D e (u_id u) (refresh_token tokens) w1 of
                               (Inl x, w2) \<Rightarrow> (Inl x, res, w2)
                             | (Inr _, w2) \<Rightarrow>
                                 (Inr (rest_without [''refreshToken'']
                                         (select_fields
                                            [''id'', ''name'', ''email'', ''role'', ''refreshToken'']
                                            (user_obj u)),
                                       tokens),
                                  saveTokensInCookies res tokens, w2))))))"

subsection \<open>Federated login callback\<close>

text \<open>\<open>!tokens\<close> on the object that \<open>getTokens\<close> returns: an object is never falsy.\<close>

definition falsy_tokens :: "Tokens \<Rightarrow> bool" where
  "falsy_tokens tokens = False"

definition googleAuthCallback ::
  "deps \<Rightarrow> env \<Rightarrow> AuthRequest_user \<Rightarrow> response \<Rightarrow> world \<Rightarrow> (error + unit) \<times> response \<times> world" where
  "googleAuthCallback D e req res w =
     (case getTokens D e (req_id req) (req_email req) (req_role req) w of
        (Inl x, w1) \<Rightarrow> (Inl x, res, w1)
      | (Inr tokens, w1) \<Rightarrow>
          if falsy_tokens tokens
          then (Inr (), res_redirect res (config_get D ''CLIENT_ORIGIN''), w1)
          else
            (case updateRtHash D e (req_id req) (refresh_token tokens) w1 of
               (Inl x, w2) \<Rightarrow> (Inl x, res, w2)
             | (Inr _, w2) \<Rightarrow>
                 (Inr (), saveTokensInCookies (res_cookie res ''test'' ''hola'' None) tokens, w2)))"

section \<open>A concrete deployment\<close>

text \<open>Collaborators on which the service can be run: a signer whose token is a function of
  the claims, the options and the second of issue, and that rejects when no secret is
  configured; a hasher whose digest is the plaintext behind a marker.\<close>

definition demo_config :: "string \<Rightarrow> string option" where
  "demo_config k =
     (if k = ''JWT_ACCESS_SECRET'' then Some ''as''
      else if k = ''JWT_REFRESH_SECRET'' then Some ''rs''
      else if k = ''CLIENT_ORIGIN'' then Some ''http://client''
      else None)"

definition demo_sign :: "nat \<Rightarrow> JwtPayload \<Rightarrow> sign_options \<Rightarrow> string + string" where
  "demo_sign t p opts =
     (case secret opts of
        None \<Rightarrow> Inl ''secretOrPrivateKey must have a value''
      | Some k \<Rightarrow> Inr (email p @ ''.'' @ expiresIn opts @ ''.'' @ k @ ''.'' @ replicate t CHR ''i''))"

definition demo_hash :: "string \<Rightarrow> string \<Rightarrow> string" where
  "demo_hash s p = CHR ''$'' # p"

definition demo_verify :: "string \<Rightarrow> string \<Rightarrow> bool" where
  "demo_verify h p = (h = CHR ''$'' # p)"

definition demo_deps :: deps where
  "demo_deps =
     \<lparr>prisma = mem_prisma, config_get = demo_config, signAsync = demo_sign,
      hash = demo_hash, verify = demo_verify\<rparr>"

text \<open>The same deployment with no secret configured, so that every signing call rejects;
  the fallback location is configured.\<close>

definition unconfigured_deps :: deps where
  "unconfigured_deps =
     demo_deps\<lparr>config_get :=
       (\<lambda>k. if k = ''CLIENT_ORIGIN'' then Some ''http://client'' else None)\<rparr>"

definition ann :: user where
  "ann =
     \<lparr>u_id = 1, u_email = ''a@x.com'', u_password = ''$pw1'', u_name = ''Ann'',
      u_role = Standard, u_refreshToken = None, u_createdAt = 0, u_updatedAt = 0\<rparr>"

definition demo_world :: world where
  "demo_world = \<lparr>db = \<lparr>rows = [ann], id_seq = 2\<rparr>, jwt_calls = []\<rparr>"

definition demo_env :: env where
  "demo_env = \<lparr>now = 3, salt = ''na''\<rparr>"

definition empty_res :: response where
  "empty_res = \<lparr>cookies = [], redirect = None\<rparr>"

text \<open>A store whose insert fails for a reason other than the uniqueness of the email.\<close>

definition broken_store_deps :: deps where
  "broken_store_deps =
     demo_deps\<lparr>prisma :=
       mem_prisma\<lparr>user_create := (\<lambda>e d t. (Inl (PrismaOtherError ''connection lost''), t))\<rparr>\<rparr>"

text \<open>A deployment where only the access secret is configured.\<close>

definition half_configured_deps :: deps where
  "half_configured_deps =
     demo_deps\<lparr>config_get := (\<lambda>k. if k = ''JWT_ACCESS_SECRET'' then Some ''as'' else None)\<rparr>"

text \<open>A deployment where both keys are configured with the same secret.\<close>

definition shared_secret_deps :: deps where
  "shared_secret_deps =
     demo_deps\<lparr>config_get :=
       (\<lambda>k. if k = ''JWT_ACCESS_SECRET'' then Some ''s''
            else if k = ''JWT_REFRESH_SECRET'' then Some ''s'' else None)\<rparr>"

text \<open>Ann with a session whose refresh token was issued at second 2.\<close>

definition session_world :: world where
  "session_world =
     \<lparr>db = \<lparr>rows = [ann\<lparr>u_refreshToken := Some ''$a@x.com.7d.rs.ii'', u_updatedAt := 2\<rparr>],
            id_seq = 2\<rparr>,
      jwt_calls = []\<rparr>"

definition ann_login :: LoginDto where
  "ann_login = \<lparr>login_email = ''a@x.com'', login_password = ''pw1''\<rparr>"

definition ann_public :: jsobj where
  "ann_public =
     [(''id'', JNum 1), (''email'', JStr ''a@x.com''), (''name'', JStr ''Ann''),
      (''role'', JRole Standard)]"

text \<open>The worlds after Ann logs in at second 3, and after she then refreshes within the
  same second with the token the login gave her.\<close>

definition after_login :: world where
  "after_login = snd (snd (login demo_deps demo_env ann_login empty_res demo_world))"

definition after_refresh :: world where
  "after_refresh =
     snd (snd (refreshTokens demo_deps demo_env empty_res 1 ''a@x.com.7d.rs.iii'' after_login))"

section \<open>Predicates of the properties\<close>

definition is_forbidden :: "error + 'a \<Rightarrow> bool" where
  "is_forbidden r = (case r of Inl (ForbiddenException m) \<Rightarrow> True | _ \<Rightarrow> False)"

text \<open>Some row matches the \<open>where\<close> clause of the \<open>updateMany\<close> of \<open>logout\<close>.\<close>

definition rt_set :: "database \<Rightarrow> int \<Rightarrow> bool" where
  "rt_set t i = list_ex (\<lambda>u. u_id u = i \<and> u_refreshToken u \<noteq> None) (rows t)"

section \<open>Evaluation\<close>

lemmas store_defs =
  mem_prisma_def mem_create_def mem_findFirstOrThrow_def mem_updateMany_def
  mem_findUnique_def mem_update_def set_rt_def clear_rt_def stored_rt_def user_absent_def
  rt_set_def

lemmas demo_defs =
  demo_deps_def demo_config_def demo_sign_def demo_hash_def demo_verify_def demo_world_def
  demo_env_def empty_res_def ann_def unconfigured_deps_def broken_store_deps_def
  half_configured_deps_def shared_secret_deps_def session_world_def ann_login_def ann_public_def

lemmas service_defs =
  login_def getTokens_def updateRtHash_def refreshTokens_def logout_def signup_def
  googleAuthCallback_def access_options_def refresh_options_def saveTokensInCookies_def
  removeTokensInCookies_def res_cookie_def res_redirect_def login_catch_def
  signup_catch_def ERROR_def user_obj_def rest_without_def select_fields_def
  falsy_tokens_def

lemma replicate_3: "replicate 3 x = [x, x, x]"
  by (simp add: numeral_3_eq_3)

lemma demo_prisma: "prisma demo_deps = mem_prisma"
  by (simp add: demo_deps_def)

lemma demo_hasher: "\<forall>s p q. verify demo_deps (hash demo_deps s p) q = (p = q)"
  by (simp add: demo_deps_def demo_hash_def demo_verify_def)

lemma demo_empty_digest: "\<forall>q. \<not> verify demo_deps [] q"
  by (simp add: demo_deps_def demo_verify_def)

lemma login_ann:
  "login demo_deps demo_env ann_login empty_res demo_world =
     (Inr (ann_public,
           \<lparr>access_token = ''a@x.com.15m.as.iii'', refresh_token = ''a@x.com.7d.rs.iii''\<rparr>),
      \<lparr>cookies =
         [\<lparr>cookie_name = ''ACCESS_TOKEN'', cookie_value = ''a@x.com.15m.as.iii'',
           maxAge = Some 900000\<rparr>,
          \<lparr>cookie_name = ''REFRESH_TOKEN'', cookie_value = ''a@x.com.7d.rs.iii'',
           maxAge = Some 604800000\<rparr>],
       redirect = None\<rparr>,
      \<lparr>db = \<lparr>rows = [ann\<lparr>u_refreshToken := Some ''$a@x.com.7d.rs.iii'', u_updatedAt := 3\<rparr>],
             id_seq = 2\<rparr>,
       jwt_calls =
         [(\<lparr>sub = 1, role = Standard, email = ''a@x.com''\<rparr>,
           \<lparr>secret = Some ''as'', expiresIn = ''15m''\<rparr>),
          (\<lparr>sub = 1, role = Standard, email = ''a@x.com''\<rparr>,
           \<lparr>secret = Some ''rs'', expiresIn = ''7d''\<rparr>)]\<rparr>)"
  by (simp add: service_defs store_defs demo_defs replicate_3 Let_def)

lemma after_login_eq:
  "after_login =
     \<lparr>db = \<lparr>rows = [ann\<lparr>u_refreshToken := Some ''$a@x.com.7d.rs.iii'', u_updatedAt := 3\<rparr>],
            id_seq = 2\<rparr>,
      jwt_calls =
        [(\<lparr>sub = 1, role = Standard, email = ''a@x.com''\<rparr>,
          \<lparr>secret = Some ''as'', expiresIn = ''15m''\<rparr>),
         (\<lparr>sub = 1, role = Standard, email = ''a@x.com''\<rparr>,
          \<lparr>secret = Some ''rs'', expiresIn = ''7d''\<rparr>)]\<rparr>"
  by (simp add: after_login_def login_ann)

lemma refresh_same_second:
  "db w = \<lparr>rows = [ann\<lparr>u_refreshToken := Some ''$a@x.com.7d.rs.iii'', u_updatedAt := 3\<rparr>],
           id_seq = 2\<rparr> \<Longrightarrow>
   refreshTokens demo_deps demo_env empty_res 1 ''a@x.com.7d.rs.iii'' w =
     (Inr (ann_public,
           \<lparr>access_token = ''a@x.com.15m.as.iii'', refresh_token = ''a@x.com.7d.rs.iii''\<rparr>),
      \<lparr>cookies =
         [\<lparr>cookie_name = ''ACCESS_TOKEN'', cookie_value = ''a@x.com.15m.as.iii'',
           maxAge = Some 900000\<rparr>,
          \<lparr>cookie_name = ''REFRESH_TOKEN'', cookie_value = ''a@x.com.7d.rs.iii'',
           maxAge = Some 604800000\<rparr>],
       redirect = None\<rparr>,
      w\<lparr>jwt_calls := jwt_calls w @
         [(\<lparr>sub = 1, role = Standard, email = ''a@x.com''\<rparr>,
           \<lparr>secret = Some ''as'', expiresIn = ''15m''\<rparr>),
          (\<lparr>sub = 1, role = Standard, email = ''a@x.com''\<rparr>,
           \<lparr>secret = Some ''rs'', expiresIn = ''7d''\<rparr>)]\<rparr>)"
  by (simp add: service_defs store_defs demo_defs replicate_3 Let_def)

lemma refresh_next_second:
  "refreshTokens demo_deps demo_env empty_res 1 ''a@x.com.7d.rs.ii'' session_world =
     (Inr (ann_public,
           \<lparr>access_token = ''a@x.com.15m.as.iii'', refresh_token = ''a@x.com.7d.rs.iii''\<rparr>),
      \<lparr>cookies =
         [\<lparr>cookie_name = ''ACCESS_TOKEN'', cookie_value = ''a@x.com.15m.as.iii'',
           maxAge = Some 900000\<rparr>,
          \<lparr>cookie_name = ''REFRESH_TOKEN'', cookie_value = ''a@x.com.7d.rs.iii'',
           maxAge = Some 604800000\<rparr>],
       redirect = None\<rparr>,
      \<lparr>db = \<lparr>rows = [ann\<lparr>u_refreshToken := Some ''$a@x.com.7d.rs.iii'', u_updatedAt := 3\<rparr>],
             id_seq = 2\<rparr>,
       jwt_calls =
         [(\<lparr>sub = 1, role = Standard, email = ''a@x.com''\<rparr>,
           \<lparr>secret = Some ''as'', expiresIn = ''15m''\<rparr>),
          (\<lparr>sub = 1, role = Standard, email = ''a@x.com''\<rparr>,
           \<lparr>secret = Some ''rs'', expiresIn = ''7d''\<rparr>)]\<rparr>)"
  by (simp add: service_defs store_defs demo_defs replicate_3 Let_def)

section \<open>Lemmas on the collaborators' calls\<close>

lemma getTokens_cases:
  "(\<exists>m. fst (getTokens D e i em r w) = Inl (JwtError m))
     \<or> (\<exists>t. fst (getTokens D e i em r w) = Inr t)"
  by (simp add: getTokens_def Let_def split: sum.splits)

lemma getTokens_world:
  "snd (getTokens D e i em r w) =
     w\<lparr>jwt_calls := jwt_calls w @
        [(\<lparr>sub = i, role = r, email = em\<rparr>, access_options D),
         (\<lparr>sub = i, role = r, email = em\<rparr>, refresh_options D)]\<rparr>"
  by (simp add: getTokens_def Let_def split: sum.splits)

lemma updateRtHash_cases:
  "(\<exists>x. fst (updateRtHash D e i rt w) = Inl (PrismaError x))
     \<or> fst (updateRtHash D e i rt w) = Inr ()"
  by (simp add: updateRtHash_def Let_def split: sum.splits prod.splits)

lemma set_rt_id [simp]: "u_id (set_rt e i h u) = u_id u"
  by (simp add: set_rt_def)

lemma clear_rt_id [simp]: "u_id (clear_rt e i u) = u_id u"
  by (simp add: clear_rt_def)

lemma find_map_keep:
  "(\<And>u. u_id (f u) = u_id u) \<Longrightarrow>
     find (\<lambda>u. u_id u = j) (map f xs) = map_option f (find (\<lambda>u. u_id u = j) xs)"
  by (induction xs) simp_all

lemma find_id: "find (\<lambda>u. u_id u = j) xs = Some u \<Longrightarrow> u_id u = j"
  by (induction xs) (auto split: if_splits)

lemma stored_rt_set:
  assumes f: "find (\<lambda>u. u_id u = i) (rows t) = Some u"
  shows "stored_rt (t\<lparr>rows := map (set_rt e i h) (rows t)\<rparr>) i = Some h"
proof -
  from f have "u_id u = i" by (rule find_id)
  with f show ?thesis by (simp add: stored_rt_def find_map_keep set_rt_def)
qed

lemma stored_rt_clear:
  "stored_rt (t\<lparr>rows := map (clear_rt e i) (rows t)\<rparr>) i = None"
  by (auto simp: stored_rt_def find_map_keep clear_rt_def dest: find_id split: option.splits)

lemma clear_rt_idem: "clear_rt e' i (clear_rt e i u) = clear_rt e i u"
  by (auto simp: clear_rt_def)

lemma map_clear_rt_noop:
  "\<not> list_ex (\<lambda>u. u_id u = i \<and> u_refreshToken u \<noteq> None) xs \<Longrightarrow> map (clear_rt e i) xs = xs"
  by (induction xs) (auto simp: clear_rt_def)

lemma rt_set_after_clear:
  "\<not> list_ex (\<lambda>u. u_id u = i \<and> u_refreshToken u \<noteq> None) (map (clear_rt e i) xs)"
  by (induction xs) (auto simp: clear_rt_def)

lemma filter_others_clear:
  "filter (\<lambda>u. u_id u \<noteq> i) (map (clear_rt e i) xs) = filter (\<lambda>u. u_id u \<noteq> i) xs"
  by (induction xs) (auto simp: clear_rt_def)

lemma absent_no_row: "find (\<lambda>u. u_id u = i) xs = None \<Longrightarrow> map (clear_rt e i) xs = xs"
  by (induction xs) (auto simp: clear_rt_def split: if_splits)

lemma mem_fields [simp]:
  "user_create mem_prisma = mem_create"
  "user_findFirstOrThrow mem_prisma = mem_findFirstOrThrow"
  "user_updateMany mem_prisma = mem_updateMany"
  "user_findUnique mem_prisma = mem_findUnique"
  "user_update mem_prisma = mem_update"
  by (simp_all add: mem_prisma_def)

lemma logout_mem:
  "prisma D = mem_prisma \<Longrightarrow>
     logout D e i res w =
       (Inr True, removeTokensInCookies res,
        w\<lparr>db := (db w)\<lparr>rows := map (clear_rt e i) (rows (db w))\<rparr>\<rparr>)"
  by (simp add: logout_def mem_updateMany_def)

section \<open>Lemmas on refresh over the table in memory\<close>

lemma refresh_mem_denied:
  assumes "prisma D = mem_prisma"
    and "stored_rt (db w) i = None \<or> stored_rt (db w) i = Some []
         \<or> (\<exists>h. stored_rt (db w) i = Some h \<and> \<not> verify D h rt)"
  shows "refreshTokens D e res i rt w = (Inl (ForbiddenException ''Access Denied.''), res, w)"
  using assms
  by (auto simp: refreshTokens_def mem_findUnique_def stored_rt_def split: option.splits)

lemma refresh_mem_pass:
  assumes "prisma D = mem_prisma"
    and "find (\<lambda>u. u_id u = i) (rows (db w)) = Some u"
    and "u_refreshToken u = Some h" and "h \<noteq> []" and "verify D h rt"
  shows "refreshTokens D e res i rt w =
     (case getTokens D e (u_id u) (u_email u) (u_role u) w of
        (Inl x, w1) \<Rightarrow> (Inl x, res, w1)
      | (Inr tokens, w1) \<Rightarrow>
          (case updateRtHash D e (u_id u) (refresh_token tokens) w1 of
             (Inl x, w2) \<Rightarrow> (Inl x, res, w2)
           | (Inr _, w2) \<Rightarrow>
               (Inr (rest_without [''refreshToken'']
                       (select_fields [''id'', ''name'', ''email'', ''role'', ''refreshToken'']
                          (user_obj u)),
                     tokens),
                saveTokensInCookies res tokens, w2)))"
  using assms by (simp add: refreshTokens_def mem_findUnique_def)

lemma refresh_pass_not_forbidden:
  assumes "prisma D = mem_prisma"
    and "find (\<lambda>u. u_id u = i) (rows (db w)) = Some u"
    and "u_refreshToken u = Some h" and "h \<noteq> []" and "verify D h rt"
  shows "\<not> is_forbidden (fst (refreshTokens D e res i rt w))"
proof -
  obtain g w1 where g: "getTokens D e (u_id u) (u_email u) (u_role u) w = (g, w1)"
    by fastforce
  have gc: "(\<exists>m. g = Inl (JwtError m)) \<or> (\<exists>t. g = Inr t)"
    using getTokens_cases [of D e "u_id u" "u_email u" "u_role u" w] g by simp
  show ?thesis
  proof (cases g)
    case (Inl x)
    then show ?thesis using gc g assms
      by (auto simp: refresh_mem_pass is_forbidden_def)
  next
    case (Inr t)
    obtain r w2 where r: "updateRtHash D e (u_id u) (refresh_token t) w1 = (r, w2)"
      by fastforce
    have "(\<exists>x. r = Inl (PrismaError x)) \<or> r = Inr ()"
      using updateRtHash_cases [of D e "u_id u" "refresh_token t" w1] r by simp
    then show ?thesis using Inr g r assms
      by (auto simp: refresh_mem_pass is_forbidden_def)
  qed
qed

lemma refresh_mem_forbidden_iff:
  assumes mem: "prisma D = mem_prisma" and nil: "\<forall>q. \<not> verify D [] q"
  shows "is_forbidden (fst (refreshTokens D e res i rt w)) =
           (user_absent (db w) i \<or> stored_rt (db w) i = None
            \<or> (\<exists>h. stored_rt (db w) i = Some h \<and> \<not> verify D h rt))"
proof (cases "find (\<lambda>u. u_id u = i) (rows (db w))")
  case None
  then have "stored_rt (db w) i = None" by (simp add: stored_rt_def)
  then show ?thesis
    using refresh_mem_denied [OF mem, of w i rt e res] by (simp add: is_forbidden_def)
next
  case (Some u)
  note f = this
  then have na: "\<not> user_absent (db w) i" by (simp add: user_absent_def)
  have st: "stored_rt (db w) i = u_refreshToken u" using f by (simp add: stored_rt_def)
  show ?thesis
  proof (cases "u_refreshToken u")
    case None
    then show ?thesis
      using st refresh_mem_denied [OF mem, of w i rt e res] by (simp add: is_forbidden_def)
  next
    case (Some h)
    note h = this
    show ?thesis
    proof (cases "h = [] \<or> \<not> verify D h rt")
      case True
      then have "\<not> verify D h rt" using nil by auto
      then show ?thesis
        using st h refresh_mem_denied [OF mem, of w i rt e res]
        by (simp add: is_forbidden_def)
    next
      case False
      then have "\<not> is_forbidden (fst (refreshTokens D e res i rt w))"
        using refresh_pass_not_forbidden [OF mem f h] by simp
      then show ?thesis using na st h False by simp
    qed
  qed
qed

section \<open>Lemmas on the returned user\<close>

lemma has_field_rest_without: "k \<in> set ks \<Longrightarrow> \<not> has_field (rest_without ks obj) k"
  by (auto simp: has_field_def rest_without_def)

lemma has_field_select: "k \<notin> set ks \<Longrightarrow> \<not> has_field (select_fields ks obj) k"
  by (auto simp: has_field_def select_fields_def)

lemma has_field_rest_mono: "\<not> has_field obj k \<Longrightarrow> \<not> has_field (rest_without ks obj) k"
  by (auto simp: has_field_def rest_without_def)

lemma signup_payload:
  "fst (signup D e dto w) = Inr obj \<Longrightarrow>
     \<exists>u. obj = rest_without [''password'', ''refreshToken'', ''createdAt'', ''updatedAt'']
                 (user_obj u)"
  by (auto simp: signup_def Let_def split: prod.splits sum.splits)

lemma login_payload:
  "fst (login D e dto res w) = Inr (obj, tokens) \<Longrightarrow>
     \<exists>u. obj = rest_without [''password'', ''refreshToken'', ''createdAt'', ''updatedAt'']
                 (user_obj u)"
  by (auto simp: login_def Let_def split: prod.splits sum.splits if_splits)

lemma refresh_payload:
  "fst (refreshTokens D e res i rt w) = Inr (obj, tokens) \<Longrightarrow>
     \<exists>u. obj = rest_without [''refreshToken'']
            (select_fields [''id'', ''name'', ''email'', ''role'', ''refreshToken''] (user_obj u))"
  by (auto simp: refreshTokens_def Let_def split: prod.splits sum.splits if_splits option.splits)

section \<open>Claims on refresh\<close>

text \<open>
  C1, as amended. Over the table in memory and with a hasher whose \<open>verify\<close> accepts a
  digest for exactly the plaintext it was made from: after every successful refresh the
  fingerprint stored for the user verifies the newly issued refresh token and no other
  string; and whenever the newly issued refresh token differs from the one that was
  presented, a later refresh that presents the previous refresh token fails with
  \<open>ForbiddenException\<close>.
\<close>

theorem refresh_rotation_when_token_changes:
  assumes mem: "prisma D = mem_prisma"
    and hv: "\<forall>s p q. verify D (hash D s p) q = (p = q)"
    and ok: "fst (refreshTokens D e res i rt w) = Inr (usr, tokens)"
  shows "(\<exists>h. stored_rt (db (snd (snd (refreshTokens D e res i rt w)))) i = Some h
            \<and> (\<forall>q. verify D h q = (q = refresh_token tokens)))
       \<and> (refresh_token tokens \<noteq> rt \<longrightarrow>
            fst (refreshTokens D e2 res2 i rt (snd (snd (refreshTokens D e res i rt w))))
              = Inl (ForbiddenException ''Access Denied.''))"
proof -
  let ?w1 = "snd (snd (refreshTokens D e res i rt w))"
  let ?h = "hash D (salt e) (refresh_token tokens)"
  have nd: "\<not> (stored_rt (db w) i = None \<or> stored_rt (db w) i = Some []
         \<or> (\<exists>h. stored_rt (db w) i = Some h \<and> \<not> verify D h rt))"
  proof
    assume "stored_rt (db w) i = None \<or> stored_rt (db w) i = Some []
         \<or> (\<exists>h. stored_rt (db w) i = Some h \<and> \<not> verify D h rt)"
    then have "refreshTokens D e res i rt w = (Inl (ForbiddenException ''Access Denied.''), res, w)"
      by (rule refresh_mem_denied [OF mem])
    with ok show False by simp
  qed
  then obtain h where sh: "stored_rt (db w) i = Some h" and h2: "h \<noteq> []" and h3: "verify D h rt"
    by (cases "stored_rt (db w) i") auto
  obtain u where f: "find (\<lambda>u. u_id u = i) (rows (db w)) = Some u"
    using sh by (cases "find (\<lambda>u. u_id u = i) (rows (db w))") (auto simp: stored_rt_def)
  have h1: "u_refreshToken u = Some h" using f sh by (simp add: stored_rt_def)
  have id: "u_id u = i" using f by (rule find_id)
  obtain g w1 where g: "getTokens D e (u_id u) (u_email u) (u_role u) w = (g, w1)"
    by fastforce
  have dbw1: "db w1 = db w"
    using getTokens_world [of D e "u_id u" "u_email u" "u_role u" w] g by simp
  have unf: "refreshTokens D e res i rt w =
     (case g of Inl x \<Rightarrow> (Inl x, res, w1)
      | Inr tk \<Rightarrow>
          (case updateRtHash D e (u_id u) (refresh_token tk) w1 of
             (Inl x, w2) \<Rightarrow> (Inl x, res, w2)
           | (Inr _, w2) \<Rightarrow>
               (Inr (rest_without [''refreshToken'']
                       (select_fields [''id'', ''name'', ''email'', ''role'', ''refreshToken'']
                          (user_obj u)),
                     tk),
                saveTokensInCookies res tk, w2)))"
    using refresh_mem_pass [OF mem f h1 h2 h3, of e res] g by (simp split: sum.splits)
  have upd: "updateRtHash D e (u_id u) (refresh_token tk) w1 =
      (Inr (), w1\<lparr>db := (db w)\<lparr>rows :=
         map (set_rt e i (hash D (salt e) (refresh_token tk))) (rows (db w))\<rparr>\<rparr>)" for tk
    using mem f id dbw1 by (simp add: updateRtHash_def mem_update_def)
  have gt: "g = Inr tokens"
    using ok unf by (cases g) (auto simp: upd)
  have w1eq: "?w1 = w1\<lparr>db := (db w)\<lparr>rows := map (set_rt e i ?h) (rows (db w))\<rparr>\<rparr>"
    using unf gt by (simp add: upd)
  have st: "stored_rt (db ?w1) i = Some ?h"
    unfolding w1eq using stored_rt_set [OF f] by simp
  have v: "\<forall>q. verify D ?h q = (q = refresh_token tokens)"
    using hv by auto
  have reuse: "fst (refreshTokens D e2 res2 i rt ?w1) = Inl (ForbiddenException ''Access Denied.'')"
    if fresh: "refresh_token tokens \<noteq> rt"
  proof -
    have "\<not> verify D ?h rt" using v fresh by auto
    then have "refreshTokens D e2 res2 i rt ?w1 =
        (Inl (ForbiddenException ''Access Denied.''), res2, ?w1)"
      using st by (intro refresh_mem_denied [OF mem]) blast
    then show ?thesis by simp
  qed
  from st v reuse show ?thesis by blast
qed

text \<open>The amended C1 at Ann's session: her token of second 2 is presented at second 3.\<close>

theorem refresh_rotation_witness:
  "prisma demo_deps = mem_prisma
   \<and> (\<forall>s p q. verify demo_deps (hash demo_deps s p) q = (p = q))
   \<and> fst (refreshTokens demo_deps demo_env empty_res 1 ''a@x.com.7d.rs.ii'' session_world)
       = Inr (ann_public,
              \<lparr>access_token = ''a@x.com.15m.as.iii'', refresh_token = ''a@x.com.7d.rs.iii''\<rparr>)
   \<and> ''a@x.com.7d.rs.iii'' \<noteq> ''a@x.com.7d.rs.ii''
   \<and> (\<exists>h. stored_rt (db (snd (snd (refreshTokens demo_deps demo_env empty_res 1
                ''a@x.com.7d.rs.ii'' session_world)))) 1 = Some h
          \<and> (\<forall>q. verify demo_deps h q = (q = ''a@x.com.7d.rs.iii'')))
   \<and> fst (refreshTokens demo_deps demo_env empty_res 1 ''a@x.com.7d.rs.ii''
            (snd (snd (refreshTokens demo_deps demo_env empty_res 1
                ''a@x.com.7d.rs.ii'' session_world))))
       = Inl (ForbiddenException ''Access Denied.'')"
proof -
  have ok: "fst (refreshTokens demo_deps demo_env empty_res 1 ''a@x.com.7d.rs.ii'' session_world)
       = Inr (ann_public,
              \<lparr>access_token = ''a@x.com.15m.as.iii'', refresh_token = ''a@x.com.7d.rs.iii''\<rparr>)"
    by (simp add: refresh_next_second)
  have fresh: "refresh_token
       \<lparr>access_token = ''a@x.com.15m.as.iii'', refresh_token = ''a@x.com.7d.rs.iii''\<rparr>
       \<noteq> ''a@x.com.7d.rs.ii''"
    by simp
  show ?thesis
    using refresh_rotation_when_token_changes
      [OF demo_prisma demo_hasher ok, of demo_env empty_res]
      demo_prisma demo_hasher ok fresh
    by simp
qed

text \<open>
  C1 as stated fails. Ann logs in at second 3 and is given the refresh token
  \<open>a@x.com.7d.rs.iii\<close>. She refreshes within the same second: the signer, given the same
  claims, secret, lifetime and second of issue, returns the same token, so the refresh
  succeeds and the fingerprint stored afterwards is again that of the token she
  presented. Presenting it a second time succeeds as well and is not rejected.
\<close>

theorem refresh_same_second_reuse_accepted:
  "fst (login demo_deps demo_env ann_login empty_res demo_world)
     = Inr (ann_public,
            \<lparr>access_token = ''a@x.com.15m.as.iii'', refresh_token = ''a@x.com.7d.rs.iii''\<rparr>)
   \<and> stored_rt (db after_login) 1 = Some ''$a@x.com.7d.rs.iii''
   \<and> fst (refreshTokens demo_deps demo_env empty_res 1 ''a@x.com.7d.rs.iii'' after_login)
     = Inr (ann_public,
            \<lparr>access_token = ''a@x.com.15m.as.iii'', refresh_token = ''a@x.com.7d.rs.iii''\<rparr>)
   \<and> stored_rt (db after_refresh) 1 = Some ''$a@x.com.7d.rs.iii''
   \<and> fst (refreshTokens demo_deps demo_env empty_res 1 ''a@x.com.7d.rs.iii'' after_refresh)
     = Inr (ann_public,
            \<lparr>access_token = ''a@x.com.15m.as.iii'', refresh_token = ''a@x.com.7d.rs.iii''\<rparr>)
   \<and> fst (refreshTokens demo_deps demo_env empty_res 1 ''a@x.com.7d.rs.iii'' after_refresh)
     \<noteq> Inl (ForbiddenException ''Access Denied.'')"
proof -
  have d1: "db after_login =
      \<lparr>rows = [ann\<lparr>u_refreshToken := Some ''$a@x.com.7d.rs.iii'', u_updatedAt := 3\<rparr>],
       id_seq = 2\<rparr>"
    by (simp add: after_login_eq)
  have d2: "db after_refresh =
      \<lparr>rows = [ann\<lparr>u_refreshToken := Some ''$a@x.com.7d.rs.iii'', u_updatedAt := 3\<rparr>],
       id_seq = 2\<rparr>"
    by (simp add: after_refresh_def refresh_same_second [OF d1] d1)
  have s1: "stored_rt (db after_login) 1 = Some ''$a@x.com.7d.rs.iii''"
    by (simp add: d1 stored_rt_def ann_def)
  have s2: "stored_rt (db after_refresh) 1 = Some ''$a@x.com.7d.rs.iii''"
    by (simp add: d2 stored_rt_def ann_def)
  show ?thesis
    by (simp add: login_ann refresh_same_second [OF d1] refresh_same_second [OF d2] s1 s2)
qed

text \<open>
  C3. Over the table in memory, with a hasher that accepts no plaintext for the empty
  digest: a refresh fails with \<open>ForbiddenException\<close> exactly when the user id is absent
  from the table, or the stored fingerprint is null, or the presented refresh token does
  not verify against the stored fingerprint; and a refresh that follows a logout of the
  same user fails with \<open>ForbiddenException\<close> whatever token it presents.
\<close>

theorem refresh_forbidden_iff:
  assumes mem: "prisma D = mem_prisma" and nil: "\<forall>q. \<not> verify D [] q"
  shows "(is_forbidden (fst (refreshTokens D e res i rt w)) =
           (user_absent (db w) i \<or> stored_rt (db w) i = None
            \<or> (\<exists>h. stored_rt (db w) i = Some h \<and> \<not> verify D h rt)))
       \<and> fst (refreshTokens D e2 res2 i rt (snd (snd (logout D e1 i res1 w))))
           = Inl (ForbiddenException ''Access Denied.'')"
proof
  show "is_forbidden (fst (refreshTokens D e res i rt w)) =
           (user_absent (db w) i \<or> stored_rt (db w) i = None
            \<or> (\<exists>h. stored_rt (db w) i = Some h \<and> \<not> verify D h rt))"
    using mem nil by (rule refresh_mem_forbidden_iff)
next
  let ?w' = "snd (snd (logout D e1 i res1 w))"
  have "stored_rt (db ?w') i = None"
    using mem by (simp add: logout_mem stored_rt_clear)
  then have "refreshTokens D e2 res2 i rt ?w' =
      (Inl (ForbiddenException ''Access Denied.''), res2, ?w')"
    by (intro refresh_mem_denied [OF mem]) blast
  then show "fst (refreshTokens D e2 res2 i rt ?w') = Inl (ForbiddenException ''Access Denied.'')"
    by simp
qed

text \<open>C3 at Ann's session: a forged token is refused, her own token is not, and after a
  logout her own token is refused.\<close>

theorem refresh_forbidden_iff_witness:
  "prisma demo_deps = mem_prisma
   \<and> (\<forall>q. \<not> verify demo_deps [] q)
   \<and> stored_rt (db session_world) 1 = Some ''$a@x.com.7d.rs.ii''
   \<and> is_forbidden (fst (refreshTokens demo_deps demo_env empty_res 1 ''forged'' session_world))
   \<and> \<not> is_forbidden
         (fst (refreshTokens demo_deps demo_env empty_res 1 ''a@x.com.7d.rs.ii'' session_world))
   \<and> fst (refreshTokens demo_deps demo_env empty_res 1 ''a@x.com.7d.rs.ii''
           (snd (snd (logout demo_deps demo_env 1 empty_res session_world))))
       = Inl (ForbiddenException ''Access Denied.'')"
proof -
  have st: "stored_rt (db session_world) 1 = Some ''$a@x.com.7d.rs.ii''"
    by (simp add: session_world_def stored_rt_def ann_def)
  have na: "\<not> user_absent (db session_world) 1"
    by (simp add: session_world_def user_absent_def ann_def)
  have v: "verify demo_deps h q = (h = CHR ''$'' # q)" for h q
    by (simp add: demo_deps_def demo_verify_def)
  note t = refresh_forbidden_iff [OF demo_prisma demo_empty_digest]
  show ?thesis
    using t [of demo_env empty_res 1 "''forged''" session_world demo_env empty_res demo_env empty_res]
      t [of demo_env empty_res 1 "''a@x.com.7d.rs.ii''" session_world demo_env empty_res
          demo_env empty_res]
      demo_prisma demo_empty_digest
    by (simp add: st na v)
qed

text \<open>
  C10. Whatever the collaborators are: when a refresh fails with \<open>ForbiddenException\<close>, it
  returns no token pair, the response is the one it was given (no cookie was set), and the
  world is the one it started from: every row of the table is unchanged, and no signing
  call was made.
\<close>

theorem refresh_forbidden_atomic:
  assumes "is_forbidden (fst (refreshTokens D e res i rt w))"
  shows "fst (refreshTokens D e res i rt w) = Inl (ForbiddenException ''Access Denied.'')
     \<and> fst (snd (refreshTokens D e res i rt w)) = res
     \<and> snd (snd (refreshTokens D e res i rt w)) = w
     \<and> rows (db (snd (snd (refreshTokens D e res i rt w)))) = rows (db w)
     \<and> jwt_calls (snd (snd (refreshTokens D e res i rt w))) = jwt_calls w"
proof -
  have "refreshTokens D e res i rt w = (Inl (ForbiddenException ''Access Denied.''), res, w)"
    using assms
    by (auto simp: is_forbidden_def refreshTokens_def getTokens_def updateRtHash_def Let_def
        split: sum.splits option.splits if_splits prod.splits)
  then show ?thesis by simp
qed

text \<open>C10 at Ann's session, with a forged token.\<close>

theorem refresh_forbidden_atomic_witness:
  "is_forbidden (fst (refreshTokens demo_deps demo_env empty_res 1 ''forged'' session_world))
   \<and> fst (refreshTokens demo_deps demo_env empty_res 1 ''forged'' session_world)
       = Inl (ForbiddenException ''Access Denied.'')
   \<and> fst (snd (refreshTokens demo_deps demo_env empty_res 1 ''forged'' session_world))
       = empty_res
   \<and> snd (snd (refreshTokens demo_deps demo_env empty_res 1 ''forged'' session_world))
       = session_world"
proof -
  have f: "is_forbidden
      (fst (refreshTokens demo_deps demo_env empty_res 1 ''forged'' session_world))"
    by (simp add: is_forbidden_def service_defs store_defs demo_defs Let_def)
  show ?thesis
    using refresh_forbidden_atomic [OF f] f by simp
qed

section \<open>Claims on login and the federated callback\<close>

lemma login_wrong_password:
  assumes "user_findFirstOrThrow (prisma D) (login_email dto) (db w) = Inr u"
    and "\<not> verify D (u_password u) (login_password dto)"
  shows "login D e dto res w = (Inl (BadRequestException ''Email or password incorrect.''), res, w)"
  using assms by (simp add: login_def login_catch_def ERROR_def)

lemma login_unknown_email:
  assumes "user_findFirstOrThrow (prisma D) (login_email dto) (db w)
             = Inl (PrismaClientKnownRequestError ''P2025'')"
  shows "login D e dto res w = (Inl (UnauthorizedException ''Email or password incorrect.''), res, w)"
  using assms by (simp add: login_def login_catch_def ERROR_def)

text \<open>
  C2 fails on the code. Ann's password is \<open>pw1\<close>. A login with her email and the password
  \<open>wrong\<close> throws \<open>BadRequestException\<close> (status 400); a login with an email that is not
  in the table throws \<open>UnauthorizedException\<close> (status 401). The message is the same, the
  exception and the status are not, so the two failures can be told apart.
\<close>

theorem login_wrong_password_is_bad_request:
  "fst (login demo_deps demo_env \<lparr>login_email = ''a@x.com'', login_password = ''wrong''\<rparr>
          empty_res demo_world)
     = Inl (BadRequestException ''Email or password incorrect.'')
   \<and> fst (login demo_deps demo_env \<lparr>login_email = ''nobody@x.com'', login_password = ''wrong''\<rparr>
          empty_res demo_world)
     = Inl (UnauthorizedException ''Email or password incorrect.'')
   \<and> fst (login demo_deps demo_env \<lparr>login_email = ''a@x.com'', login_password = ''wrong''\<rparr>
          empty_res demo_world)
     \<noteq> fst (login demo_deps demo_env \<lparr>login_email = ''nobody@x.com'', login_password = ''wrong''\<rparr>
          empty_res demo_world)
   \<and> getStatus (BadRequestException ''Email or password incorrect.'') = 400
   \<and> getStatus (UnauthorizedException ''Email or password incorrect.'') = 401"
  by (simp add: service_defs store_defs demo_defs)

lemma google_callback_sign_failure:
  assumes "fst (getTokens D e (req_id req) (req_email req) (req_role req) w) = Inl x"
  shows "fst (googleAuthCallback D e req res w) = Inl x
     \<and> fst (snd (googleAuthCallback D e req res w)) = res"
  using assms by (auto simp: googleAuthCallback_def split: prod.splits)

lemma google_callback_no_redirect:
  "redirect (fst (snd (googleAuthCallback D e req res w))) = redirect res"
  by (simp add: googleAuthCallback_def falsy_tokens_def saveTokensInCookies_def res_cookie_def
      split: prod.splits sum.splits)

text \<open>
  C4 fails on the code. With no secret configured the signer rejects, \<open>getTokens\<close> throws,
  and the callback throws the same error: the response is left as it was given, with no
  redirect. The test \<open>!tokens\<close> that guards the redirect is never reached on a failure and
  never holds on a success.
\<close>

theorem google_callback_propagates_sign_failure:
  "fst (googleAuthCallback unconfigured_deps demo_env
          \<lparr>req_id = 1, req_email = ''a@x.com'', req_role = Standard\<rparr> empty_res demo_world)
     = Inl (JwtError ''secretOrPrivateKey must have a value'')
   \<and> fst (snd (googleAuthCallback unconfigured_deps demo_env
          \<lparr>req_id = 1, req_email = ''a@x.com'', req_role = Standard\<rparr> empty_res demo_world))
     = empty_res
   \<and> redirect (fst (snd (googleAuthCallback unconfigured_deps demo_env
          \<lparr>req_id = 1, req_email = ''a@x.com'', req_role = Standard\<rparr> empty_res demo_world)))
     = None
   \<and> config_get unconfigured_deps ''CLIENT_ORIGIN'' = Some ''http://client''"
  by (simp add: service_defs store_defs demo_defs Let_def)

section \<open>Claims on signup\<close>

text \<open>
  C5. Over the table in memory, a signup whose email is already in the table fails with
  \<open>ConflictException\<close>, whatever its other fields are, and leaves the world as it was.
  Whatever the store is, the conflict comes from the error of the insert and from nothing
  else: an insert that fails with the uniqueness violation \<open>P2002\<close> gives the conflict,
  an insert that fails with any other error gives that error, and an insert that succeeds
  gives a successful signup, with no look at the table before it.
\<close>

theorem signup_conflict_from_unique_violation:
  "(prisma D = mem_prisma \<and> list_ex (\<lambda>u. u_email u = signup_email dto) (rows (db w))
      \<longrightarrow> signup D e dto w = (Inl (ConflictException [''Email is already in use'']), w))
   \<and> (user_create (prisma D) e
         (signup_email dto, hash D (salt e) (signup_password dto), signup_name dto) (db w)
         = (Inl x, t)
      \<longrightarrow> fst (signup D e dto w) =
            (if x = PrismaClientKnownRequestError ''P2002''
             then Inl (ConflictException [''Email is already in use''])
             else Inl (PrismaError x)))
   \<and> (user_create (prisma D) e
         (signup_email dto, hash D (salt e) (signup_password dto), signup_name dto) (db w)
         = (Inr u, t)
      \<longrightarrow> signup D e dto w =
            (Inr (rest_without [''password'', ''refreshToken'', ''createdAt'', ''updatedAt'']
                    (user_obj u)), w\<lparr>db := t\<rparr>))"
  by (auto simp: signup_def Let_def signup_catch_def mem_prisma_def mem_create_def
      split: prisma_error.splits)

text \<open>C5 at the table that holds Ann: a second signup with her email, a signup on a store
  that has lost its connection, and a signup with a new email.\<close>

theorem signup_conflict_witness:
  "prisma demo_deps = mem_prisma
   \<and> list_ex (\<lambda>u. u_email u = ''a@x.com'') (rows (db demo_world))
   \<and> signup demo_deps demo_env
        \<lparr>signup_email = ''a@x.com'', signup_password = ''pw2'', signup_name = ''Bob''\<rparr> demo_world
       = (Inl (ConflictException [''Email is already in use'']), demo_world)
   \<and> user_create (prisma broken_store_deps) demo_env (''b@x.com'', ''$pw2'', ''Bob'') (db demo_world)
       = (Inl (PrismaOtherError ''connection lost''), db demo_world)
   \<and> fst (signup broken_store_deps demo_env
        \<lparr>signup_email = ''b@x.com'', signup_password = ''pw2'', signup_name = ''Bob''\<rparr> demo_world)
       = Inl (PrismaError (PrismaOtherError ''connection lost''))
   \<and> fst (signup demo_deps demo_env
        \<lparr>signup_email = ''b@x.com'', signup_password = ''pw2'', signup_name = ''Bob''\<rparr> demo_world)
       = Inr [(''id'', JNum 2), (''email'', JStr ''b@x.com''), (''name'', JStr ''Bob''),
              (''role'', JRole Standard)]"
proof -
  let ?a = "\<lparr>signup_email = ''a@x.com'', signup_password = ''pw2'', signup_name = ''Bob''\<rparr>"
  let ?b = "\<lparr>signup_email = ''b@x.com'', signup_password = ''pw2'', signup_name = ''Bob''\<rparr>"
  let ?bob = "\<lparr>u_id = 2, u_email = ''b@x.com'', u_password = ''$pw2'', u_name = ''Bob'',
      u_role = Standard, u_refreshToken = None, u_createdAt = 3, u_updatedAt = 3\<rparr>"
  have ex: "list_ex (\<lambda>u. u_email u = signup_email ?a) (rows (db demo_world))"
    by (simp add: demo_world_def ann_def)
  have br: "user_create (prisma broken_store_deps) demo_env
      (signup_email ?b, hash broken_store_deps (salt demo_env) (signup_password ?b), signup_name ?b)
      (db demo_world) = (Inl (PrismaOtherError ''connection lost''), db demo_world)"
    by (simp add: demo_defs)
  have cr: "user_create (prisma demo_deps) demo_env
      (signup_email ?b, hash demo_deps (salt demo_env) (signup_password ?b), signup_name ?b)
      (db demo_world) = (Inr ?bob, \<lparr>rows = [ann, ?bob], id_seq = 3\<rparr>)"
    by (simp add: demo_defs store_defs Let_def)
  show ?thesis
    using signup_conflict_from_unique_violation
        [where D = demo_deps and dto = ?a and w = demo_world and e = demo_env]
      signup_conflict_from_unique_violation
        [where D = broken_store_deps and dto = ?b and w = demo_world and e = demo_env
           and x = "PrismaOtherError ''connection lost''" and t = "db demo_world"]
      signup_conflict_from_unique_violation
        [where D = demo_deps and dto = ?b and w = demo_world and e = demo_env
           and u = ?bob and t = "\<lparr>rows = [ann, ?bob], id_seq = 3\<rparr>"]
      demo_prisma ex br cr
    by (simp add: user_obj_def rest_without_def demo_hash_def demo_deps_def
        broken_store_deps_def demo_env_def)
qed

section \<open>Claims on logout\<close>

text \<open>
  C6. Over the table in memory, for every user id: logout reports success and sets the two
  cookies \<open>ACCESS_TOKEN\<close> and \<open>REFRESH_TOKEN\<close> to the empty string with a maximal age of 0;
  afterwards the stored fingerprint of that user is null, and the rows of the other users
  are as they were; when no row of that user had a fingerprint, the update matches no row
  and the world is exactly as it was (the update is conditional); and a second logout in a
  row reports success again and leaves the world of the first logout unchanged.
\<close>

theorem logout_idempotent:
  assumes "prisma D = mem_prisma"
  shows "fst (logout D e i res w) = Inr True
    \<and> fst (snd (logout D e i res w)) = removeTokensInCookies res
    \<and> cookies (removeTokensInCookies res) = cookies res @
         [\<lparr>cookie_name = ''ACCESS_TOKEN'', cookie_value = [], maxAge = Some 0\<rparr>,
          \<lparr>cookie_name = ''REFRESH_TOKEN'', cookie_value = [], maxAge = Some 0\<rparr>]
    \<and> stored_rt (db (snd (snd (logout D e i res w)))) i = None
    \<and> \<not> rt_set (db (snd (snd (logout D e i res w)))) i
    \<and> filter (\<lambda>u. u_id u \<noteq> i) (rows (db (snd (snd (logout D e i res w)))))
         = filter (\<lambda>u. u_id u \<noteq> i) (rows (db w))
    \<and> (\<not> rt_set (db w) i \<longrightarrow> snd (snd (logout D e i res w)) = w)
    \<and> fst (logout D e2 i res2 (snd (snd (logout D e i res w)))) = Inr True
    \<and> snd (snd (logout D e2 i res2 (snd (snd (logout D e i res w)))))
         = snd (snd (logout D e i res w))"
  using assms
  by (simp add: logout_mem stored_rt_clear rt_set_def rt_set_after_clear filter_others_clear
      map_clear_rt_noop removeTokensInCookies_def res_cookie_def clear_rt_idem
      del: not_None_eq)

text \<open>C6 at Ann's session, where a fingerprint is set, and at the table where she has
  none.\<close>

theorem logout_idempotent_witness:
  "prisma demo_deps = mem_prisma
   \<and> rt_set (db session_world) 1
   \<and> fst (logout demo_deps demo_env 1 empty_res session_world) = Inr True
   \<and> stored_rt (db (snd (snd (logout demo_deps demo_env 1 empty_res session_world)))) 1 = None
   \<and> fst (logout demo_deps demo_env 1 empty_res
            (snd (snd (logout demo_deps demo_env 1 empty_res session_world)))) = Inr True
   \<and> snd (snd (logout demo_deps demo_env 1 empty_res
            (snd (snd (logout demo_deps demo_env 1 empty_res session_world)))))
       = snd (snd (logout demo_deps demo_env 1 empty_res session_world))
   \<and> \<not> rt_set (db demo_world) 1
   \<and> snd (snd (logout demo_deps demo_env 1 empty_res demo_world)) = demo_world"
proof -
  have a: "rt_set (db session_world) 1"
    by (simp add: rt_set_def session_world_def ann_def)
  have b: "\<not> rt_set (db demo_world) 1"
    by (simp add: rt_set_def demo_world_def ann_def)
  show ?thesis
    using logout_idempotent [OF demo_prisma, of demo_env 1 empty_res session_world demo_env empty_res]
      logout_idempotent [OF demo_prisma, of demo_env 1 empty_res demo_world demo_env empty_res]
      demo_prisma a b
    by simp
qed

text \<open>
  C9. Over the table in memory, logout reports success for every user id, so it never fails
  with \<open>ForbiddenException\<close> or with a not-found error; for a user id that is not in the
  table the update matches no row and the world is left as it was.
\<close>

theorem logout_unknown_user_succeeds:
  assumes "prisma D = mem_prisma"
  shows "fst (logout D e i res w) = Inr True
     \<and> (user_absent (db w) i \<longrightarrow> snd (snd (logout D e i res w)) = w)"
  using assms by (simp add: logout_mem user_absent_def absent_no_row)

text \<open>C9 at the user id 42, which the table that holds Ann does not have.\<close>

theorem logout_unknown_user_witness:
  "prisma demo_deps = mem_prisma
   \<and> user_absent (db demo_world) 42
   \<and> fst (logout demo_deps demo_env 42 empty_res demo_world) = Inr True
   \<and> snd (snd (logout demo_deps demo_env 42 empty_res demo_world)) = demo_world"
proof -
  have a: "user_absent (db demo_world) 42"
    by (simp add: user_absent_def demo_world_def ann_def)
  show ?thesis
    using logout_unknown_user_succeeds [OF demo_prisma, of demo_env 42 empty_res demo_world]
      demo_prisma a
    by simp
qed

section \<open>Claims on the returned user and on token issuance\<close>

text \<open>
  C7. Whatever the collaborators are: the user object returned by a successful signup, by
  a successful login and by a successful refresh has neither a \<open>password\<close> field nor a
  \<open>refreshToken\<close> field.
\<close>

theorem returned_user_is_sanitized:
  "(fst (signup D e sdto w) = Inr obj \<longrightarrow>
      \<not> has_field obj ''password'' \<and> \<not> has_field obj ''refreshToken'')
   \<and> (fst (login D e ldto res w) = Inr (obj, tokens) \<longrightarrow>
      \<not> has_field obj ''password'' \<and> \<not> has_field obj ''refreshToken'')
   \<and> (fst (refreshTokens D e res i rt w) = Inr (obj, tokens) \<longrightarrow>
      \<not> has_field obj ''password'' \<and> \<not> has_field obj ''refreshToken'')"
proof (intro conjI impI)
  assume "fst (signup D e sdto w) = Inr obj"
  then obtain u where o:
    "obj = rest_without [''password'', ''refreshToken'', ''createdAt'', ''updatedAt''] (user_obj u)"
    using signup_payload by blast
  show "\<not> has_field obj ''password''" unfolding o by (rule has_field_rest_without) simp
  show "\<not> has_field obj ''refreshToken''" unfolding o by (rule has_field_rest_without) simp
next
  assume "fst (login D e ldto res w) = Inr (obj, tokens)"
  then obtain u where o:
    "obj = rest_without [''password'', ''refreshToken'', ''createdAt'', ''updatedAt''] (user_obj u)"
    using login_payload by blast
  show "\<not> has_field obj ''password''" unfolding o by (rule has_field_rest_without) simp
  show "\<not> has_field obj ''refreshToken''" unfolding o by (rule has_field_rest_without) simp
next
  assume "fst (refreshTokens D e res i rt w) = Inr (obj, tokens)"
  then obtain u where o: "obj = rest_without [''refreshToken'']
      (select_fields [''id'', ''name'', ''email'', ''role'', ''refreshToken''] (user_obj u))"
    using refresh_payload by blast
  show "\<not> has_field obj ''password''" unfolding o
    by (rule has_field_rest_mono, rule has_field_select) simp
  show "\<not> has_field obj ''refreshToken''" unfolding o by (rule has_field_rest_without) simp
qed

text \<open>C7 at Bob's signup, Ann's login and Ann's refresh.\<close>

theorem returned_user_is_sanitized_witness:
  "fst (signup demo_deps demo_env
        \<lparr>signup_email = ''b@x.com'', signup_password = ''pw2'', signup_name = ''Bob''\<rparr> demo_world)
     = Inr [(''id'', JNum 2), (''email'', JStr ''b@x.com''), (''name'', JStr ''Bob''),
            (''role'', JRole Standard)]
   \<and> \<not> has_field [(''id'', JNum 2), (''email'', JStr ''b@x.com''), (''name'', JStr ''Bob''),
            (''role'', JRole Standard)] ''password''
   \<and> \<not> has_field [(''id'', JNum 2), (''email'', JStr ''b@x.com''), (''name'', JStr ''Bob''),
            (''role'', JRole Standard)] ''refreshToken''
   \<and> fst (login demo_deps demo_env ann_login empty_res demo_world)
     = Inr (ann_public,
            \<lparr>access_token = ''a@x.com.15m.as.iii'', refresh_token = ''a@x.com.7d.rs.iii''\<rparr>)
   \<and> fst (refreshTokens demo_deps demo_env empty_res 1 ''a@x.com.7d.rs.ii'' session_world)
     = Inr (ann_public,
            \<lparr>access_token = ''a@x.com.15m.as.iii'', refresh_token = ''a@x.com.7d.rs.iii''\<rparr>)
   \<and> \<not> has_field ann_public ''password''
   \<and> \<not> has_field ann_public ''refreshToken''"
proof -
  let ?b = "\<lparr>signup_email = ''b@x.com'', signup_password = ''pw2'', signup_name = ''Bob''\<rparr>"
  let ?bob = "[(''id'', JNum 2), (''email'', JStr ''b@x.com''), (''name'', JStr ''Bob''),
            (''role'', JRole Standard)]"
  let ?t = "\<lparr>access_token = ''a@x.com.15m.as.iii'', refresh_token = ''a@x.com.7d.rs.iii''\<rparr>"
  have s: "fst (signup demo_deps demo_env ?b demo_world) = Inr ?bob"
    by (simp add: service_defs store_defs demo_defs Let_def)
  have l: "fst (login demo_deps demo_env ann_login empty_res demo_world) = Inr (ann_public, ?t)"
    by (simp add: login_ann)
  have r: "fst (refreshTokens demo_deps demo_env empty_res 1 ''a@x.com.7d.rs.ii'' session_world)
      = Inr (ann_public, ?t)"
    by (simp add: refresh_next_second)
  show ?thesis
    using returned_user_is_sanitized
        [where D = demo_deps and e = demo_env and sdto = ?b and w = demo_world and obj = ?bob]
      returned_user_is_sanitized
        [where D = demo_deps and e = demo_env and ldto = ann_login and res = empty_res
           and w = demo_world and obj = ann_public and tokens = ?t]
      s l r
    by simp
qed

text \<open>
  C8, as amended. Whatever the collaborators are, for every user id, email and role: token
  issuance returns the pair of an access token \<open>a\<close> and a refresh token \<open>t\<close> exactly when
  the signer returns \<open>a\<close> for the claims \<open>{sub, role, email}\<close> with the secret configured
  as \<open>JWT_ACCESS_SECRET\<close> and the lifetime \<open>15m\<close>, and returns \<open>t\<close> for the same claims
  with the secret configured as \<open>JWT_REFRESH_SECRET\<close> and the lifetime \<open>7d\<close>; the signing
  calls it makes are these two and no other; when either signing call fails the issuance
  fails and returns no pair; and the table is left as it was.
\<close>

theorem getTokens_issues_pair:
  "(fst (getTokens D e i em r w) = Inr \<lparr>access_token = a, refresh_token = t\<rparr>) =
     (signAsync D (now e) \<lparr>sub = i, role = r, email = em\<rparr>
        \<lparr>secret = config_get D ''JWT_ACCESS_SECRET'', expiresIn = ''15m''\<rparr> = Inr a
      \<and> signAsync D (now e) \<lparr>sub = i, role = r, email = em\<rparr>
        \<lparr>secret = config_get D ''JWT_REFRESH_SECRET'', expiresIn = ''7d''\<rparr> = Inr t)
   \<and> ((isl (signAsync D (now e) \<lparr>sub = i, role = r, email = em\<rparr>
              \<lparr>secret = config_get D ''JWT_ACCESS_SECRET'', expiresIn = ''15m''\<rparr>)
        \<or> isl (signAsync D (now e) \<lparr>sub = i, role = r, email = em\<rparr>
              \<lparr>secret = config_get D ''JWT_REFRESH_SECRET'', expiresIn = ''7d''\<rparr>))
       \<longrightarrow> isl (fst (getTokens D e i em r w)))
   \<and> db (snd (getTokens D e i em r w)) = db w
   \<and> jwt_calls (snd (getTokens D e i em r w)) = jwt_calls w @
        [(\<lparr>sub = i, role = r, email = em\<rparr>,
          \<lparr>secret = config_get D ''JWT_ACCESS_SECRET'', expiresIn = ''15m''\<rparr>),
         (\<lparr>sub = i, role = r, email = em\<rparr>,
          \<lparr>secret = config_get D ''JWT_REFRESH_SECRET'', expiresIn = ''7d''\<rparr>)]"
  by (auto simp: getTokens_def Let_def access_options_def refresh_options_def isl_def
      split: sum.splits)

text \<open>C8 as amended, at Ann's claims: with both secrets configured, and with the refresh
  secret missing, where the access token is signed and the issuance fails all the same.\<close>

theorem getTokens_issues_pair_witness:
  "fst (getTokens demo_deps demo_env 1 ''a@x.com'' Standard demo_world)
     = Inr \<lparr>access_token = ''a@x.com.15m.as.iii'', refresh_token = ''a@x.com.7d.rs.iii''\<rparr>
   \<and> jwt_calls (snd (getTokens demo_deps demo_env 1 ''a@x.com'' Standard demo_world))
       = [(\<lparr>sub = 1, role = Standard, email = ''a@x.com''\<rparr>,
           \<lparr>secret = Some ''as'', expiresIn = ''15m''\<rparr>),
          (\<lparr>sub = 1, role = Standard, email = ''a@x.com''\<rparr>,
           \<lparr>secret = Some ''rs'', expiresIn = ''7d''\<rparr>)]
   \<and> signAsync half_configured_deps (now demo_env) \<lparr>sub = 1, role = Standard, email = ''a@x.com''\<rparr>
        \<lparr>secret = config_get half_configured_deps ''JWT_ACCESS_SECRET'', expiresIn = ''15m''\<rparr>
       = Inr ''a@x.com.15m.as.iii''
   \<and> isl (signAsync half_configured_deps (now demo_env)
        \<lparr>sub = 1, role = Standard, email = ''a@x.com''\<rparr>
        \<lparr>secret = config_get half_configured_deps ''JWT_REFRESH_SECRET'', expiresIn = ''7d''\<rparr>)
   \<and> isl (fst (getTokens half_configured_deps demo_env 1 ''a@x.com'' Standard demo_world))
   \<and> db (snd (getTokens half_configured_deps demo_env 1 ''a@x.com'' Standard demo_world))
       = db demo_world"
proof -
  have c: "config_get demo_deps ''JWT_ACCESS_SECRET'' = Some ''as''
      \<and> config_get demo_deps ''JWT_REFRESH_SECRET'' = Some ''rs''"
    by (simp add: demo_deps_def demo_config_def)
  have n: "jwt_calls demo_world = []"
    by (simp add: demo_world_def)
  have a: "signAsync half_configured_deps (now demo_env)
        \<lparr>sub = 1, role = Standard, email = ''a@x.com''\<rparr>
        \<lparr>secret = config_get half_configured_deps ''JWT_ACCESS_SECRET'', expiresIn = ''15m''\<rparr>
       = Inr ''a@x.com.15m.as.iii''"
    by (simp add: demo_defs replicate_3)
  have f: "isl (signAsync half_configured_deps (now demo_env)
        \<lparr>sub = 1, role = Standard, email = ''a@x.com''\<rparr>
        \<lparr>secret = config_get half_configured_deps ''JWT_REFRESH_SECRET'', expiresIn = ''7d''\<rparr>)"
    by (simp add: demo_defs)
  have s: "signAsync demo_deps (now demo_env) \<lparr>sub = 1, role = Standard, email = ''a@x.com''\<rparr>
        \<lparr>secret = config_get demo_deps ''JWT_ACCESS_SECRET'', expiresIn = ''15m''\<rparr>
       = Inr ''a@x.com.15m.as.iii''
     \<and> signAsync demo_deps (now demo_env) \<lparr>sub = 1, role = Standard, email = ''a@x.com''\<rparr>
        \<lparr>secret = config_get demo_deps ''JWT_REFRESH_SECRET'', expiresIn = ''7d''\<rparr>
       = Inr ''a@x.com.7d.rs.iii''"
    by (simp add: demo_defs replicate_3)
  show ?thesis
    using getTokens_issues_pair
        [where D = demo_deps and e = demo_env and i = 1 and em = "''a@x.com''" and r = Standard
           and w = demo_world and a = "''a@x.com.15m.as.iii''" and t = "''a@x.com.7d.rs.iii''"]
      getTokens_issues_pair
        [where D = half_configured_deps and e = demo_env and i = 1 and em = "''a@x.com''"
           and r = Standard and w = demo_world]
      c n a f s
    by simp
qed

text \<open>
  C8 as stated fails. With \<open>JWT_ACCESS_SECRET\<close> and \<open>JWT_REFRESH_SECRET\<close> both configured
  as \<open>s\<close>, token issuance succeeds and both tokens are signed with the one secret \<open>s\<close>:
  the service reads two configuration keys and never compares what they hold.
\<close>

theorem getTokens_shared_secret:
  "fst (getTokens shared_secret_deps demo_env 1 ''a@x.com'' Standard demo_world)
     = Inr \<lparr>access_token = ''a@x.com.15m.s.iii'', refresh_token = ''a@x.com.7d.s.iii''\<rparr>
   \<and> jwt_calls (snd (getTokens shared_secret_deps demo_env 1 ''a@x.com'' Standard demo_world))
       = [(\<lparr>sub = 1, role = Standard, email = ''a@x.com''\<rparr>,
           \<lparr>secret = Some ''s'', expiresIn = ''15m''\<rparr>),
          (\<lparr>sub = 1, role = Standard, email = ''a@x.com''\<rparr>,
           \<lparr>secret = Some ''s'', expiresIn = ''7d''\<rparr>)]
   \<and> secret (access_options shared_secret_deps) = secret (refresh_options shared_secret_deps)"
  by (simp add: service_defs demo_defs replicate_3 Let_def)

end
